theory Spec2Isabelle
  imports Main "HOL-Library.AList"
begin

section \<open>The OKD \<open>k8s\<close> module: provisioning of projects through project requests\<close>

text \<open>
  This theory embeds the class \<open>OKDRawModule\<close> of \<open>plugins/modules/k8s.py\<close>: its
  constructor, \<open>perform_action\<close>, \<open>create_project_request\<close> and \<open>main\<close>. The class
  extends \<open>KubernetesRawModule\<close> of the community.kubernetes collection and talks to the
  cluster through the OpenShift dynamic client; both live outside this repository, so
  their behaviour enters the model as parameters (the record \<open>env\<close>), and every call
  made to them is logged as an \<open>event\<close>.
\<close>

subsection \<open>Python values and dictionaries\<close>

text \<open>
  Definitions, module parameters and results are Python dictionaries of JSON-like values.
  A dictionary is an association list: \<open>map_of\<close> looks a key up, and \<open>AList.update\<close>
  is the item assignment \<open>d[k] = v\<close> (the value is replaced in place when the key exists,
  the pair is appended otherwise).
\<close>

datatype pyval =
    PyNone
  | PyBool bool
  | PyInt int
  | PyStr string
  | PyList "pyval list"
  | PyDict "(string \<times> pyval) list"

type_synonym pydict = "(string \<times> pyval) list"

text \<open>
  The exceptions of the run. \<open>NotFoundError\<close> and \<open>ForbiddenError\<close> are subclasses of
  \<open>DynamicApiError\<close> in \<open>openshift.dynamic.exceptions\<close>; the constructor
  \<open>DynamicApiError\<close> stands for every instance of that class that is neither of the two.
  An API error carries the response body (as the text that \<open>str.format\<close> renders), the
  transport status and the reason.
\<close>

record api_error =
  body :: string
  status :: int
  reason :: string

datatype exception =
    NotFoundError api_error
  | ForbiddenError api_error
  | DynamicApiError api_error
  | KeyError string
  | AttributeError string
  | OtherException string

text \<open>
  \<open>fail_json\<close> of the Ansible module never returns: it ends the run with a structured
  error made of its keyword arguments. A run therefore ends in a returned value, in
  \<open>FailJson\<close> with those arguments, or in an exception nobody caught.
\<close>

datatype failure = FailJson pydict | Raised exception

text \<open>\<open>d.get(k)\<close>, which is \<open>None\<close> for a missing key.\<close>

definition py_get :: "pydict \<Rightarrow> string \<Rightarrow> pyval" where
  "py_get d k = (case map_of d k of None \<Rightarrow> PyNone | Some v \<Rightarrow> v)"

text \<open>\<open>d[k]\<close>, which raises \<open>KeyError\<close> for a missing key.\<close>

definition py_item :: "pydict \<Rightarrow> string \<Rightarrow> exception + pyval" where
  "py_item d k = (case map_of d k of None \<Rightarrow> Inl (KeyError k) | Some v \<Rightarrow> Inr v)"

text \<open>\<open>v.get(k)\<close> on an arbitrary value: only a dictionary has the method.\<close>

definition py_attr_get :: "pyval \<Rightarrow> string \<Rightarrow> exception + pyval" where
  "py_attr_get v k =
     (case v of PyDict d \<Rightarrow> Inr (py_get d k) | _ \<Rightarrow> Inl (AttributeError ''get''))"

text \<open>\<open>v in [s1, ..., sn]\<close> for a list of string literals: equality with one of them.\<close>

definition py_in :: "pyval \<Rightarrow> string list \<Rightarrow> bool" where
  "py_in v xs = (v \<in> set (map PyStr xs))"

text \<open>\<open>isinstance(exc, DynamicApiError)\<close>, with the error's fields.\<close>

fun as_dynamic_api_error :: "exception \<Rightarrow> api_error option" where
  "as_dynamic_api_error (NotFoundError a) = Some a"
| "as_dynamic_api_error (ForbiddenError a) = Some a"
| "as_dynamic_api_error (DynamicApiError a) = Some a"
| "as_dynamic_api_error _ = None"

text \<open>\<open>isinstance(exc, (NotFoundError, ForbiddenError))\<close>.\<close>

fun is_not_found_or_forbidden :: "exception \<Rightarrow> bool" where
  "is_not_found_or_forbidden (NotFoundError a) = True"
| "is_not_found_or_forbidden (ForbiddenError a) = True"
| "is_not_found_or_forbidden _ = False"

subsection \<open>The module, its collaborators and the log of calls\<close>

text \<open>
  A REST resource descriptor of the dynamic client, named by the kind and the API version
  it serves; the object that \<open>create\<close> returns, with its \<open>to_dict\<close>.
\<close>

datatype resource = Resource string pyval

datatype resource_instance = ResourceInstance (to_dict: pydict)

text \<open>What \<open>self\<close> holds that this class reads: the parameters and the check-mode flag.\<close>

record okd_raw_module =
  params :: pydict
  check_mode :: bool

text \<open>
  The calls that leave this class: \<open>resource.get(name, namespace)\<close>,
  \<open>self.find_resource(kind, api_version, fail=True)\<close>, \<open>resource.create(definition)\<close>,
  the inherited \<open>perform_action(resource, definition)\<close> (which owns the normal
  reconciliation, waiting included), the inherited constructor and \<open>execute_module\<close>.
\<close>

datatype event =
    Get resource pyval pyval
  | FindResource string pyval
  | Create resource pydict
  | BasePerformAction resource pydict
  | BaseInit
  | ExecuteModule

text \<open>
  The collaborators. \<open>resource_get\<close> and \<open>resource_create\<close> answer with an object or
  raise; \<open>find_resource\<close> with \<open>fail=True\<close> answers with a resource or ends the run;
  \<open>base_perform_action\<close> is \<open>KubernetesRawModule.perform_action\<close>, which returns its
  result (or fails) and may leave the definition changed.
\<close>

record env =
  resource_get :: "resource \<Rightarrow> pyval \<Rightarrow> pyval \<Rightarrow> exception + resource_instance"
  find_resource :: "string \<Rightarrow> pyval \<Rightarrow> failure + resource"
  resource_create :: "resource \<Rightarrow> pydict \<Rightarrow> exception + resource_instance"
  base_perform_action ::
    "okd_raw_module \<Rightarrow> resource \<Rightarrow> pydict \<Rightarrow> pydict \<times> (failure + pydict)"

text \<open>
  What one call of a method leaves behind: the calls made, in order, the caller's
  definition as it is afterwards (the dictionary is passed by reference), and the outcome.
\<close>

record run =
  calls :: "event list"
  definition_after :: pydict
  outcome :: "failure + pydict"

definition raise :: "event list \<Rightarrow> pydict \<Rightarrow> exception \<Rightarrow> run" where
  "raise evs defn x = \<lparr>calls = evs, definition_after = defn, outcome = Inl (Raised x)\<rparr>"

definition fail_json :: "event list \<Rightarrow> pydict \<Rightarrow> pydict \<Rightarrow> run" where
  "fail_json evs defn kwargs =
     \<lparr>calls = evs, definition_after = defn, outcome = Inl (FailJson kwargs)\<rparr>"

text \<open>A run that happens after the calls \<open>evs\<close> were made.\<close>

definition after :: "event list \<Rightarrow> run \<Rightarrow> run" where
  "after evs r = r\<lparr>calls := evs @ calls r\<rparr>"

text \<open>\<open>super(OKDRawModule, self).perform_action(resource, definition)\<close>.\<close>

definition super_perform_action :: "env \<Rightarrow> okd_raw_module \<Rightarrow> resource \<Rightarrow> pydict \<Rightarrow> run" where
  "super_perform_action e m resource defn =
     (case base_perform_action e m resource defn of
        (defn', out) \<Rightarrow>
          \<lparr>calls = [BasePerformAction resource defn], definition_after = defn', outcome = out\<rparr>)"

subsection \<open>\<open>create_project_request\<close>\<close>

text \<open>The keyword arguments of the two \<open>fail_json\<close> calls on an API error.\<close>

definition api_failure :: "string \<Rightarrow> api_error \<Rightarrow> pydict" where
  "api_failure prefix exc =
     [(''msg'', PyStr (prefix @ body exc)),
      (''error'', PyInt (status exc)),
      (''status'', PyInt (status exc)),
      (''reason'', PyStr (reason exc))]"

definition create_project_request :: "env \<Rightarrow> okd_raw_module \<Rightarrow> pydict \<Rightarrow> run" where
  "create_project_request e m defn0 =
     (let defn = AList.update ''kind'' (PyStr ''ProjectRequest'') defn0;
          result = [(''changed'', PyBool False), (''result'', PyDict [])]
      in case py_item defn ''apiVersion'' of
           Inl x \<Rightarrow> raise [] defn x
         | Inr api_version \<Rightarrow>
             (case find_resource e ''ProjectRequest'' api_version of
                Inl f \<Rightarrow>
                  \<lparr>calls = [FindResource ''ProjectRequest'' api_version],
                   definition_after = defn, outcome = Inl f\<rparr>
              | Inr resource \<Rightarrow>
                  (if \<not> check_mode m then
                     (case resource_create e resource defn of
                        Inr k8s_obj \<Rightarrow>
                          \<lparr>calls = [FindResource ''ProjectRequest'' api_version,
                                    Create resource defn],
                           definition_after = defn,
                           outcome = Inr
                             (AList.update ''method'' (PyStr ''create'')
                               (AList.update ''changed'' (PyBool True)
                                 (AList.update ''result'' (PyDict (to_dict k8s_obj)) result)))\<rparr>
                      | Inl x \<Rightarrow>
                          (case as_dynamic_api_error x of
                             Some exc \<Rightarrow>
                               fail_json
                                 [FindResource ''ProjectRequest'' api_version,
                                  Create resource defn]
                                 defn (api_failure ''Failed to create object: '' exc)
                           | None \<Rightarrow>
                               raise
                                 [FindResource ''ProjectRequest'' api_version,
                                  Create resource defn]
                                 defn x))
                   else
                     \<lparr>calls = [FindResource ''ProjectRequest'' api_version],
                      definition_after = defn,
                      outcome = Inr
                        (AList.update ''method'' (PyStr ''create'')
                          (AList.update ''changed'' (PyBool True) result))\<rparr>)))"

subsection \<open>\<open>perform_action\<close>\<close>

definition perform_action :: "env \<Rightarrow> okd_raw_module \<Rightarrow> resource \<Rightarrow> pydict \<Rightarrow> run" where
  "perform_action e m resource defn =
     (let state = py_get (params m) ''state''
      in case py_item defn ''metadata'' of
           Inl x \<Rightarrow> raise [] defn x
         | Inr metadata \<Rightarrow>
       (case py_attr_get metadata ''name'' of
           Inl x \<Rightarrow> raise [] defn x
         | Inr name \<Rightarrow>
       (case py_attr_get metadata ''namespace'' of
           Inl x \<Rightarrow> raise [] defn x
         | Inr namespace \<Rightarrow>
       (case py_item defn ''kind'' of
           Inl x \<Rightarrow> raise [] defn x
         | Inr kind \<Rightarrow>
           if py_in kind [''Project'', ''ProjectRequest''] \<and> state \<noteq> PyStr ''absent'' then
             (case resource_get e resource name namespace of
                Inr obj \<Rightarrow>
                  after [Get resource name namespace] (super_perform_action e m resource defn)
              | Inl x \<Rightarrow>
                  if is_not_found_or_forbidden x then
                    after [Get resource name namespace] (create_project_request e m defn)
                  else
                    (case as_dynamic_api_error x of
                       Some exc \<Rightarrow>
                         fail_json [Get resource name namespace] defn
                           (api_failure ''Failed to retrieve requested object: '' exc)
                     | None \<Rightarrow> raise [Get resource name namespace] defn x))
           else super_perform_action e m resource defn))))"

subsection \<open>The constructor and \<open>main\<close>\<close>

text \<open>
  The import of the community.kubernetes collection at the top of the file either
  succeeds, or fails and leaves the exception (here its native text, what \<open>to_native\<close>
  gives) and the formatted traceback in two module-level variables.
\<close>

datatype collection_import =
    Imported
  | ImportFailed (k8s_collection_import_exception: string) (K8S_COLLECTION_ERROR: string)

fun HAS_KUBERNETES_COLLECTION :: "collection_import \<Rightarrow> bool" where
  "HAS_KUBERNETES_COLLECTION Imported = True"
| "HAS_KUBERNETES_COLLECTION (ImportFailed exn tb) = False"

text \<open>
  \<open>OKDRawModule.__init__\<close>; \<open>base_init\<close> is what the inherited constructor does (it
  parses the arguments into the module, or fails).
\<close>

definition init ::
  "collection_import \<Rightarrow> (failure + okd_raw_module) \<Rightarrow> event list \<times> (failure + okd_raw_module)"
where
  "init imp base_init =
     (if \<not> HAS_KUBERNETES_COLLECTION imp then
        ([], Inl (FailJson
           [(''msg'', PyStr ''The community.kubernetes collection must be installed''),
            (''exception'', PyStr (K8S_COLLECTION_ERROR imp)),
            (''error'', PyStr (k8s_collection_import_exception imp))]))
      else ([BaseInit], base_init))"

text \<open>\<open>main\<close>: \<open>OKDRawModule().execute_module()\<close>.\<close>

definition main ::
  "collection_import \<Rightarrow> (failure + okd_raw_module) \<Rightarrow> (okd_raw_module \<Rightarrow> failure + pydict)
     \<Rightarrow> event list \<times> (failure + pydict)"
where
  "main imp base_init execute_module =
     (case init imp base_init of
        (evs, Inl f) \<Rightarrow> (evs, Inl f)
      | (evs, Inr m) \<Rightarrow> (evs @ [ExecuteModule], execute_module m))"

subsection \<open>The calls of the provisioning path\<close>

text \<open>
  The calls this class makes on its own account: the probe for the live object, the
  resolution of the request kind and the create. Everything else is the base class's.
\<close>

fun provisioning_call :: "event \<Rightarrow> bool" where
  "provisioning_call (Get r n ns) = True"
| "provisioning_call (FindResource k v) = True"
| "provisioning_call (Create r d) = True"
| "provisioning_call _ = False"

text \<open>The definition once \<open>definition['kind'] = 'ProjectRequest'\<close> has run.\<close>

abbreviation as_project_request :: "pydict \<Rightarrow> pydict" where
  "as_project_request defn \<equiv> AList.update ''kind'' (PyStr ''ProjectRequest'') defn"

subsection \<open>Concrete scenarios\<close>

text \<open>
  A project definition, the resource that serves it, and a cluster whose answer to the
  probe is a parameter: it resolves every kind, accepts every create, and its base
  reconciliation reports no change.
\<close>

definition project_defn :: pydict where
  "project_defn =
     [(''apiVersion'', PyStr ''project.openshift.io/v1''),
      (''kind'', PyStr ''Project''),
      (''metadata'', PyDict [(''name'', PyStr ''demo'')])]"

definition config_map_defn :: pydict where
  "config_map_defn =
     [(''apiVersion'', PyStr ''v1''),
      (''kind'', PyStr ''ConfigMap''),
      (''metadata'', PyDict [(''name'', PyStr ''settings''), (''namespace'', PyStr ''demo'')])]"

definition projects :: resource where
  "projects = Resource ''Project'' (PyStr ''project.openshift.io/v1'')"

definition created_object :: resource_instance where
  "created_object = ResourceInstance
     [(''apiVersion'', PyStr ''project.openshift.io/v1''),
      (''kind'', PyStr ''Project''),
      (''metadata'', PyDict [(''name'', PyStr ''demo''), (''uid'', PyStr ''u1'')])]"

definition cluster :: "(exception + resource_instance) \<Rightarrow> env" where
  "cluster answer =
     \<lparr>resource_get = (\<lambda>r n ns. answer),
      find_resource = (\<lambda>k v. Inr (Resource k v)),
      resource_create = (\<lambda>r d. Inr created_object),
      base_perform_action =
        (\<lambda>m r d. (d, Inr [(''changed'', PyBool False), (''result'', PyDict d)]))\<rparr>"

definition okd_module :: "string \<Rightarrow> bool \<Rightarrow> okd_raw_module" where
  "okd_module state check =
     \<lparr>params = [(''state'', PyStr state), (''wait'', PyBool True)], check_mode = check\<rparr>"

definition not_found :: exception where
  "not_found = NotFoundError \<lparr>body = ''not found'', status = 404, reason = ''Not Found''\<rparr>"

definition forbidden :: exception where
  "forbidden = ForbiddenError \<lparr>body = ''forbidden'', status = 403, reason = ''Forbidden''\<rparr>"

definition server_error :: exception where
  "server_error =
     DynamicApiError \<lparr>body = ''boom'', status = 500, reason = ''Internal Server Error''\<rparr>"

lemmas scenario_defs =
  project_defn_def config_map_defn_def projects_def created_object_def cluster_def
  okd_module_def not_found_def forbidden_def server_error_def

section \<open>Properties\<close>

subsection \<open>The two methods, path by path\<close>

text \<open>
  With a \<open>metadata\<close> dictionary and a \<open>kind\<close> in the definition, the four reads at the
  top of \<open>perform_action\<close> succeed and the method is its branch on the kind and the state.
\<close>

lemma perform_action_fields:
  assumes "map_of defn ''metadata'' = Some (PyDict md)" and "map_of defn ''kind'' = Some kind"
  shows "perform_action e m resource defn =
     (if py_in kind [''Project'', ''ProjectRequest'']
         \<and> py_get (params m) ''state'' \<noteq> PyStr ''absent'' then
        (case resource_get e resource (py_get md ''name'') (py_get md ''namespace'') of
           Inr obj \<Rightarrow>
             after [Get resource (py_get md ''name'') (py_get md ''namespace'')]
               (super_perform_action e m resource defn)
         | Inl x \<Rightarrow>
             if is_not_found_or_forbidden x then
               after [Get resource (py_get md ''name'') (py_get md ''namespace'')]
                 (create_project_request e m defn)
             else
               (case as_dynamic_api_error x of
                  Some exc \<Rightarrow>
                    fail_json [Get resource (py_get md ''name'') (py_get md ''namespace'')] defn
                      (api_failure ''Failed to retrieve requested object: '' exc)
                | None \<Rightarrow>
                    raise [Get resource (py_get md ''name'') (py_get md ''namespace'')] defn x))
      else super_perform_action e m resource defn)"
  using assms by (simp add: perform_action_def py_item_def py_attr_get_def)

lemma api_version_after_kind:
  "map_of (AList.update ''kind'' v defn) ''apiVersion'' = map_of defn ''apiVersion''"
  by (simp add: update_conv')

text \<open>
  With an \<open>apiVersion\<close> in the definition and a request kind that resolves,
  \<open>create_project_request\<close> is its branch on the check mode and on the create's answer.
\<close>

lemma create_project_request_resolved:
  assumes "map_of defn ''apiVersion'' = Some api_version"
      and "find_resource e ''ProjectRequest'' api_version = Inr request_resource"
  shows "create_project_request e m defn =
     (if check_mode m then
        \<lparr>calls = [FindResource ''ProjectRequest'' api_version],
         definition_after = as_project_request defn,
         outcome = Inr [(''changed'', PyBool True), (''result'', PyDict []),
                        (''method'', PyStr ''create'')]\<rparr>
      else
        (case resource_create e request_resource (as_project_request defn) of
           Inr k8s_obj \<Rightarrow>
             \<lparr>calls = [FindResource ''ProjectRequest'' api_version,
                       Create request_resource (as_project_request defn)],
              definition_after = as_project_request defn,
              outcome = Inr [(''changed'', PyBool True), (''result'', PyDict (to_dict k8s_obj)),
                             (''method'', PyStr ''create'')]\<rparr>
         | Inl x \<Rightarrow>
             (case as_dynamic_api_error x of
                Some exc \<Rightarrow>
                  fail_json
                    [FindResource ''ProjectRequest'' api_version,
                     Create request_resource (as_project_request defn)]
                    (as_project_request defn) (api_failure ''Failed to create object: '' exc)
              | None \<Rightarrow>
                  raise
                    [FindResource ''ProjectRequest'' api_version,
                     Create request_resource (as_project_request defn)]
                    (as_project_request defn) x)))"
  using assms
  by (simp add: create_project_request_def py_item_def api_version_after_kind Let_def
           split: sum.splits)

lemma provisioning_path:
  assumes "map_of defn ''metadata'' = Some (PyDict md)"
      and "map_of defn ''kind'' = Some (PyStr kind)"
      and "kind \<in> {''Project'', ''ProjectRequest''}"
      and "py_get (params m) ''state'' \<noteq> PyStr ''absent''"
      and "resource_get e resource (py_get md ''name'') (py_get md ''namespace'') = Inl x"
      and "is_not_found_or_forbidden x"
  shows "perform_action e m resource defn =
           after [Get resource (py_get md ''name'') (py_get md ''namespace'')]
             (create_project_request e m defn)"
  using assms by (auto simp: perform_action_fields py_in_def)

lemma state_present:
  "map_of (params m) ''state'' = Some (PyStr ''present'') \<Longrightarrow>
     py_get (params m) ''state'' \<noteq> PyStr ''absent''"
  by (simp add: py_get_def)

lemma kind_after_kind:
  "map_of (as_project_request defn) ''kind'' = Some (PyStr ''ProjectRequest'')"
  by (simp add: update_conv')

lemma other_key_after_kind:
  "k \<noteq> ''kind'' \<Longrightarrow> map_of (as_project_request defn) k = map_of defn k"
  by (simp add: update_conv')

lemma definition_after_create_project_request:
  "definition_after (create_project_request e m defn) = as_project_request defn"
  by (simp add: create_project_request_def Let_def raise_def fail_json_def
        split: sum.splits option.splits)

lemma calls_super_perform_action:
  "calls (super_perform_action e m resource defn) = [BasePerformAction resource defn]"
  by (simp add: super_perform_action_def split: prod.splits)

subsection \<open>The result of a provisioning\<close>

text \<open>
  Claim C1, as amended. For a definition whose kind is \<open>Project\<close> or \<open>ProjectRequest\<close>,
  with \<open>state=present\<close>, when the lookup of the live object fails with not-found and the
  create of the request kind that follows succeeds, the returned result has
  \<open>changed=true\<close> and \<open>method="create"\<close> (the code never reports a method called
  \<open>provision\<close>), and its \<open>result\<close> is the created object as a dictionary.
\<close>

theorem provision_reports_create:
  assumes "map_of defn ''metadata'' = Some (PyDict md)"
      and "map_of defn ''kind'' = Some (PyStr kind)"
      and "kind \<in> {''Project'', ''ProjectRequest''}"
      and "map_of defn ''apiVersion'' = Some api_version"
      and "map_of (params m) ''state'' = Some (PyStr ''present'')"
      and "resource_get e resource (py_get md ''name'') (py_get md ''namespace'')
             = Inl (NotFoundError a)"
      and "find_resource e ''ProjectRequest'' api_version = Inr request_resource"
      and "\<not> check_mode m"
      and "resource_create e request_resource (as_project_request defn) = Inr k8s_obj"
  shows "outcome (perform_action e m resource defn) =
           Inr [(''changed'', PyBool True), (''result'', PyDict (to_dict k8s_obj)),
                (''method'', PyStr ''create'')]"
proof -
  have "perform_action e m resource defn =
          after [Get resource (py_get md ''name'') (py_get md ''namespace'')]
            (create_project_request e m defn)"
    using provisioning_path [OF assms(1-3) state_present [OF assms(5)] assms(6)] by simp
  then show ?thesis
    using assms(8,9)
    by (simp add: create_project_request_resolved [OF assms(4,7)] after_def)
qed

theorem provision_reports_create_witness:
  "outcome (perform_action (cluster (Inl not_found)) (okd_module ''present'' False)
      projects project_defn) =
     Inr [(''changed'', PyBool True), (''result'', PyDict (to_dict created_object)),
          (''method'', PyStr ''create'')]"
  using provision_reports_create
    [of project_defn "[(''name'', PyStr ''demo'')]" "''Project''"
        "PyStr ''project.openshift.io/v1''" "okd_module ''present'' False"
        "cluster (Inl not_found)" projects
        "\<lparr>body = ''not found'', status = 404, reason = ''Not Found''\<rparr>"
        "Resource ''ProjectRequest'' (PyStr ''project.openshift.io/v1'')" created_object]
  by (simp add: scenario_defs py_get_def Let_def)

text \<open>
  The claim as first stated fails: on a project that does not exist yet, outside check
  mode, the run returns \<open>method="create"\<close>, which is not \<open>"provision"\<close>.
\<close>

theorem provision_method_counterexample:
  "outcome (perform_action (cluster (Inl not_found)) (okd_module ''present'' False)
      projects project_defn) =
     Inr [(''changed'', PyBool True), (''result'', PyDict (to_dict created_object)),
          (''method'', PyStr ''create'')]
   \<and> py_get [(''changed'', PyBool True), (''result'', PyDict (to_dict created_object)),
          (''method'', PyStr ''create'')] ''method'' \<noteq> PyStr ''provision''"
  by (simp add: scenario_defs perform_action_def create_project_request_def py_item_def
        py_attr_get_def py_get_def py_in_def after_def Let_def)

subsection \<open>Not-found and forbidden start a provisioning\<close>

text \<open>
  Claim C2, as amended. For a definition with \<open>state=present\<close> and kind \<open>Project\<close> or
  \<open>ProjectRequest\<close>, if the fetch of the live object raises \<open>NotFoundError\<close> or
  \<open>ForbiddenError\<close> (the run is the same for both), the base implementation is not called
  and no create of the original kind is attempted: the definition's kind is set to
  \<open>ProjectRequest\<close>, the \<open>ProjectRequest\<close> resource is resolved for the definition's
  \<open>apiVersion\<close>, and, once it is resolved, a create of the definition is submitted to it
  unless the module runs in check mode, where no create is submitted.
\<close>

theorem signals_enter_provisioning:
  assumes "map_of defn ''metadata'' = Some (PyDict md)"
      and "map_of defn ''kind'' = Some (PyStr kind)"
      and "kind \<in> {''Project'', ''ProjectRequest''}"
      and "map_of defn ''apiVersion'' = Some api_version"
      and "map_of (params m) ''state'' = Some (PyStr ''present'')"
      and "resource_get e resource (py_get md ''name'') (py_get md ''namespace'') = Inl signal"
      and "signal = NotFoundError a \<or> signal = ForbiddenError a"
      and "find_resource e ''ProjectRequest'' api_version = Inr request_resource"
  shows "calls (perform_action e m resource defn) =
           [Get resource (py_get md ''name'') (py_get md ''namespace''),
            FindResource ''ProjectRequest'' api_version]
           @ (if check_mode m then [] else [Create request_resource (as_project_request defn)])
         \<and> definition_after (perform_action e m resource defn) = as_project_request defn
         \<and> map_of (as_project_request defn) ''kind'' = Some (PyStr ''ProjectRequest'')
         \<and> map_of (as_project_request defn) ''apiVersion'' = Some api_version"
proof -
  have sig: "is_not_found_or_forbidden signal"
    using assms(7) by auto
  have path: "perform_action e m resource defn =
          after [Get resource (py_get md ''name'') (py_get md ''namespace'')]
            (create_project_request e m defn)"
    by (rule provisioning_path [OF assms(1-3) state_present [OF assms(5)] assms(6) sig])
  have "calls (create_project_request e m defn) =
          FindResource ''ProjectRequest'' api_version
          # (if check_mode m then [] else [Create request_resource (as_project_request defn)])"
    by (simp add: create_project_request_resolved [OF assms(4,8)] raise_def fail_json_def
          split: sum.splits option.splits)
  then show ?thesis
    using assms(4)
    by (simp add: path after_def definition_after_create_project_request kind_after_kind
          api_version_after_kind)
qed

theorem signals_enter_provisioning_witness:
  "calls (perform_action (cluster (Inl forbidden)) (okd_module ''present'' False)
      projects project_defn) =
     [Get projects (PyStr ''demo'') PyNone,
      FindResource ''ProjectRequest'' (PyStr ''project.openshift.io/v1''),
      Create (Resource ''ProjectRequest'' (PyStr ''project.openshift.io/v1''))
        [(''apiVersion'', PyStr ''project.openshift.io/v1''),
         (''kind'', PyStr ''ProjectRequest''),
         (''metadata'', PyDict [(''name'', PyStr ''demo'')])]]"
  using signals_enter_provisioning
    [of project_defn "[(''name'', PyStr ''demo'')]" "''Project''"
        "PyStr ''project.openshift.io/v1''" "okd_module ''present'' False"
        "cluster (Inl forbidden)" projects forbidden
        "\<lparr>body = ''forbidden'', status = 403, reason = ''Forbidden''\<rparr>"
        "Resource ''ProjectRequest'' (PyStr ''project.openshift.io/v1'')"]
  by (simp add: scenario_defs py_get_def)

text \<open>
  The claim as first stated fails in check mode: the probe answers not-found, the request
  kind is resolved, and that is the last call; no create is submitted.
\<close>

theorem check_mode_create_counterexample:
  "calls (perform_action (cluster (Inl not_found)) (okd_module ''present'' True)
      projects project_defn) =
     [Get projects (PyStr ''demo'') PyNone,
      FindResource ''ProjectRequest'' (PyStr ''project.openshift.io/v1'')]"
  by (simp add: scenario_defs perform_action_def create_project_request_def py_item_def
        py_attr_get_def py_get_def py_in_def after_def Let_def)

subsection \<open>Any other API error on the probe is fatal\<close>

text \<open>
  Claim C3. For a definition with \<open>state=present\<close> and kind \<open>Project\<close> or
  \<open>ProjectRequest\<close>, if the fetch of the live object fails with an API error that is
  neither not-found nor forbidden, the run ends in \<open>fail_json\<close> with \<open>msg\<close>, \<open>error\<close>,
  \<open>status\<close> and \<open>reason\<close> taken from the error; the probe is the only call made, so
  nothing is resolved or created, and the definition is untouched.
\<close>

theorem other_api_error_is_fatal:
  assumes "map_of defn ''metadata'' = Some (PyDict md)"
      and "map_of defn ''kind'' = Some (PyStr kind)"
      and "kind \<in> {''Project'', ''ProjectRequest''}"
      and "map_of (params m) ''state'' = Some (PyStr ''present'')"
      and "resource_get e resource (py_get md ''name'') (py_get md ''namespace'')
             = Inl (DynamicApiError exc)"
  shows "perform_action e m resource defn =
           \<lparr>calls = [Get resource (py_get md ''name'') (py_get md ''namespace'')],
            definition_after = defn,
            outcome = Inl (FailJson
              [(''msg'', PyStr (''Failed to retrieve requested object: '' @ body exc)),
               (''error'', PyInt (status exc)),
               (''status'', PyInt (status exc)),
               (''reason'', PyStr (reason exc))])\<rparr>"
  using assms(3,5) state_present [OF assms(4)]
  by (auto simp: perform_action_fields [OF assms(1,2)] py_in_def fail_json_def api_failure_def)

theorem other_api_error_is_fatal_witness:
  "perform_action (cluster (Inl server_error)) (okd_module ''present'' False)
      projects project_defn =
     \<lparr>calls = [Get projects (PyStr ''demo'') PyNone],
      definition_after = project_defn,
      outcome = Inl (FailJson
        [(''msg'', PyStr ''Failed to retrieve requested object: boom''),
         (''error'', PyInt 500),
         (''status'', PyInt 500),
         (''reason'', PyStr ''Internal Server Error'')])\<rparr>"
  using other_api_error_is_fatal
    [of project_defn "[(''name'', PyStr ''demo'')]" "''Project''"
        "okd_module ''present'' False" "cluster (Inl server_error)" projects
        "\<lparr>body = ''boom'', status = 500, reason = ''Internal Server Error''\<rparr>"]
  by (simp add: scenario_defs py_get_def)

subsection \<open>\<open>state=absent\<close> never provisions\<close>

text \<open>
  Claim C4. With \<open>state=absent\<close> no call of the provisioning path (probe, resolution of
  the request kind, create) is made, whatever the definition; and a definition that has
  its \<open>metadata\<close> and \<open>kind\<close> is handed as it is to the base implementation, whose run
  is the whole run.
\<close>

theorem absent_never_provisions:
  assumes "map_of (params m) ''state'' = Some (PyStr ''absent'')"
  shows "(\<forall>ev \<in> set (calls (perform_action e m resource defn)). \<not> provisioning_call ev)
         \<and> (map_of defn ''metadata'' = Some (PyDict md) \<and> map_of defn ''kind'' = Some kind
              \<longrightarrow> perform_action e m resource defn = super_perform_action e m resource defn)"
proof -
  have st: "py_get (params m) ''state'' = PyStr ''absent''"
    using assms by (simp add: py_get_def)
  have "\<forall>ev \<in> set (calls (perform_action e m resource defn)). \<not> provisioning_call ev"
    by (simp add: perform_action_def st raise_def calls_super_perform_action
          split: sum.splits)
  moreover have "perform_action e m resource defn = super_perform_action e m resource defn"
    if "map_of defn ''metadata'' = Some (PyDict md)" "map_of defn ''kind'' = Some kind"
    by (simp add: perform_action_fields [OF that] st)
  ultimately show ?thesis by blast
qed

theorem absent_never_provisions_witness:
  "map_of (params (okd_module ''absent'' False)) ''state'' = Some (PyStr ''absent'')
   \<and> perform_action (cluster (Inl not_found)) (okd_module ''absent'' False)
        projects project_defn
     = super_perform_action (cluster (Inl not_found)) (okd_module ''absent'' False)
         projects project_defn
   \<and> calls (perform_action (cluster (Inl not_found)) (okd_module ''absent'' False)
        projects project_defn) = [BasePerformAction projects project_defn]"
proof -
  have st: "map_of (params (okd_module ''absent'' False)) ''state'' = Some (PyStr ''absent'')"
    by (simp add: okd_module_def)
  have fields: "map_of project_defn ''metadata'' = Some (PyDict [(''name'', PyStr ''demo'')])
                \<and> map_of project_defn ''kind'' = Some (PyStr ''Project'')"
    by (simp add: project_defn_def)
  have "perform_action (cluster (Inl not_found)) (okd_module ''absent'' False)
          projects project_defn
        = super_perform_action (cluster (Inl not_found)) (okd_module ''absent'' False)
            projects project_defn"
    using absent_never_provisions
      [OF st, of "cluster (Inl not_found)" projects project_defn
         "[(''name'', PyStr ''demo'')]" "PyStr ''Project''"] fields
    by blast
  then show ?thesis
    using st by (simp add: calls_super_perform_action)
qed

subsection \<open>What happens to the caller's definition\<close>

text \<open>
  Claim C5 as first stated fails: after a provisioning of a \<open>Project\<close>, the caller's
  definition has kind \<open>ProjectRequest\<close>.
\<close>

theorem definition_kind_counterexample:
  "map_of project_defn ''kind'' = Some (PyStr ''Project'')
   \<and> map_of (definition_after
        (perform_action (cluster (Inl not_found)) (okd_module ''present'' False)
           projects project_defn)) ''kind'' = Some (PyStr ''ProjectRequest'')"
  by (simp add: scenario_defs perform_action_def create_project_request_def py_item_def
        py_attr_get_def py_get_def py_in_def after_def Let_def)

text \<open>
  Claim C5, as amended. \<open>create_project_request\<close> overwrites the \<open>kind\<close> of the caller's
  definition with \<open>ProjectRequest\<close> and changes nothing else; and \<open>perform_action\<close>
  either hands the definition, unmodified, to the base implementation, or leaves every
  field other than \<open>kind\<close> as it was.
\<close>

theorem only_kind_is_overwritten:
  assumes "k \<noteq> ''kind''"
  shows "definition_after (create_project_request e m defn) = as_project_request defn
         \<and> map_of (definition_after (create_project_request e m defn)) k = map_of defn k
         \<and> (BasePerformAction resource defn \<in> set (calls (perform_action e m resource defn))
              \<or> map_of (definition_after (perform_action e m resource defn)) k = map_of defn k)"
proof -
  have "BasePerformAction resource defn \<in> set (calls (perform_action e m resource defn))
        \<or> map_of (definition_after (perform_action e m resource defn)) k = map_of defn k"
    using assms
    by (simp add: perform_action_def raise_def fail_json_def after_def
          calls_super_perform_action definition_after_create_project_request
          other_key_after_kind split: sum.splits option.splits)
  then show ?thesis
    using assms by (simp add: definition_after_create_project_request other_key_after_kind)
qed

theorem only_kind_is_overwritten_witness:
  "''apiVersion'' \<noteq> ''kind''
   \<and> map_of (definition_after
        (perform_action (cluster (Inl not_found)) (okd_module ''present'' False)
           projects project_defn)) ''apiVersion'' = map_of project_defn ''apiVersion''"
proof -
  have ne: "''apiVersion'' \<noteq> ''kind''" by simp
  have "BasePerformAction projects project_defn \<notin> set (calls
          (perform_action (cluster (Inl not_found)) (okd_module ''present'' False)
             projects project_defn))"
    by (simp add: scenario_defs perform_action_def create_project_request_def py_item_def
          py_attr_get_def py_get_def py_in_def after_def Let_def)
  then show ?thesis
    using only_kind_is_overwritten
      [OF ne, of "cluster (Inl not_found)" "okd_module ''present'' False" project_defn projects]
    by simp
qed

subsection \<open>An existing object is reconciled by the base implementation\<close>

text \<open>
  Claim C6. For a definition with \<open>state=present\<close> and kind \<open>Project\<close> or
  \<open>ProjectRequest\<close>, if the fetch of the live object succeeds, the run is the probe
  followed by the base implementation's \<open>perform_action\<close> on the unmodified definition:
  nothing is resolved or created by the provisioning path.
\<close>

theorem existing_object_falls_through:
  assumes "map_of defn ''metadata'' = Some (PyDict md)"
      and "map_of defn ''kind'' = Some (PyStr kind)"
      and "kind \<in> {''Project'', ''ProjectRequest''}"
      and "map_of (params m) ''state'' = Some (PyStr ''present'')"
      and "resource_get e resource (py_get md ''name'') (py_get md ''namespace'') = Inr obj"
  shows "perform_action e m resource defn =
           after [Get resource (py_get md ''name'') (py_get md ''namespace'')]
             (super_perform_action e m resource defn)
         \<and> calls (perform_action e m resource defn) =
             [Get resource (py_get md ''name'') (py_get md ''namespace''),
              BasePerformAction resource defn]"
  using assms(3,5) state_present [OF assms(4)]
  by (auto simp: perform_action_fields [OF assms(1,2)] py_in_def after_def
        calls_super_perform_action)

theorem existing_object_falls_through_witness:
  "calls (perform_action (cluster (Inr created_object)) (okd_module ''present'' False)
      projects project_defn) =
     [Get projects (PyStr ''demo'') PyNone, BasePerformAction projects project_defn]"
  using existing_object_falls_through
    [of project_defn "[(''name'', PyStr ''demo'')]" "''Project''"
        "okd_module ''present'' False" "cluster (Inr created_object)" projects created_object]
  by (simp add: scenario_defs py_get_def after_def calls_super_perform_action)

subsection \<open>The provisioning kinds are fixed\<close>

text \<open>
  Claim C7. The provisioning kinds are exactly \<open>Project\<close> and \<open>ProjectRequest\<close>, for
  every module configuration and every cluster: on a definition of any other kind
  \<open>perform_action\<close> is the base implementation's \<open>perform_action\<close> and nothing more, and
  the probe for the live object is made if and only if the kind is one of the two and the
  state is not \<open>absent\<close>. No parameter of the module enters the test on the kind.
\<close>

theorem provisioning_kinds_fixed:
  assumes "map_of defn ''metadata'' = Some (PyDict md)"
      and "map_of defn ''kind'' = Some kind"
  shows "(kind \<notin> {PyStr ''Project'', PyStr ''ProjectRequest''}
            \<longrightarrow> perform_action e m resource defn = super_perform_action e m resource defn)
         \<and> (Get resource (py_get md ''name'') (py_get md ''namespace'')
               \<in> set (calls (perform_action e m resource defn))
             \<longleftrightarrow> kind \<in> {PyStr ''Project'', PyStr ''ProjectRequest''}
                 \<and> py_get (params m) ''state'' \<noteq> PyStr ''absent'')"
  by (auto simp: perform_action_fields [OF assms] py_in_def after_def raise_def fail_json_def
        calls_super_perform_action split: sum.splits option.splits)

theorem provisioning_kinds_fixed_witness:
  "PyStr ''ConfigMap'' \<notin> {PyStr ''Project'', PyStr ''ProjectRequest''}
   \<and> perform_action (cluster (Inl not_found)) (okd_module ''present'' False)
        (Resource ''ConfigMap'' (PyStr ''v1'')) config_map_defn
     = super_perform_action (cluster (Inl not_found)) (okd_module ''present'' False)
         (Resource ''ConfigMap'' (PyStr ''v1'')) config_map_defn
   \<and> Get projects (PyStr ''demo'') PyNone
        \<in> set (calls (perform_action (cluster (Inl not_found)) (okd_module ''present'' False)
             projects project_defn))"
proof -
  have a: "map_of config_map_defn ''metadata''
             = Some (PyDict [(''name'', PyStr ''settings''), (''namespace'', PyStr ''demo'')])"
          "map_of config_map_defn ''kind'' = Some (PyStr ''ConfigMap'')"
    by (simp_all add: config_map_defn_def)
  have b: "map_of project_defn ''metadata'' = Some (PyDict [(''name'', PyStr ''demo'')])"
          "map_of project_defn ''kind'' = Some (PyStr ''Project'')"
    by (simp_all add: project_defn_def)
  have ne: "PyStr ''ConfigMap'' \<notin> {PyStr ''Project'', PyStr ''ProjectRequest''}"
    by simp
  have st: "py_get (params (okd_module ''present'' False)) ''state'' \<noteq> PyStr ''absent''"
    by (simp add: okd_module_def py_get_def)
  have c: "py_get [(''name'', PyStr ''demo'')] ''name'' = PyStr ''demo''"
          "py_get [(''name'', PyStr ''demo'')] ''namespace'' = PyNone"
    by (simp_all add: py_get_def)
  show ?thesis
    using provisioning_kinds_fixed [OF a, of "cluster (Inl not_found)"
              "okd_module ''present'' False" "Resource ''ConfigMap'' (PyStr ''v1'')"]
          provisioning_kinds_fixed [OF b, of "cluster (Inl not_found)"
              "okd_module ''present'' False" projects]
          ne st
    by (simp add: c)
qed

subsection \<open>A provisioning does not wait\<close>

text \<open>
  Claim C8. When a provisioning is submitted and succeeds, the calls of the run are the
  probe, the resolution of the request kind and the create, and nothing after them: the
  base implementation, which owns the waiting, is never called, whatever the module's
  parameters (\<open>wait\<close> included), and the result has the keys \<open>changed\<close>, \<open>result\<close> and
  \<open>method\<close> only, so it carries no \<open>duration\<close>.
\<close>

theorem provisioning_does_not_wait:
  assumes "map_of defn ''metadata'' = Some (PyDict md)"
      and "map_of defn ''kind'' = Some (PyStr kind)"
      and "kind \<in> {''Project'', ''ProjectRequest''}"
      and "map_of defn ''apiVersion'' = Some api_version"
      and "map_of (params m) ''state'' = Some (PyStr ''present'')"
      and "resource_get e resource (py_get md ''name'') (py_get md ''namespace'') = Inl signal"
      and "signal = NotFoundError a \<or> signal = ForbiddenError a"
      and "find_resource e ''ProjectRequest'' api_version = Inr request_resource"
      and "\<not> check_mode m"
      and "resource_create e request_resource (as_project_request defn) = Inr k8s_obj"
  shows "calls (perform_action e m resource defn) =
           [Get resource (py_get md ''name'') (py_get md ''namespace''),
            FindResource ''ProjectRequest'' api_version,
            Create request_resource (as_project_request defn)]
         \<and> (case outcome (perform_action e m resource defn) of
               Inr result \<Rightarrow>
                 map fst result = [''changed'', ''result'', ''method'']
                 \<and> map_of result ''duration'' = None
             | Inl f \<Rightarrow> False)"
proof -
  have sig: "is_not_found_or_forbidden signal"
    using assms(7) by auto
  have path: "perform_action e m resource defn =
          after [Get resource (py_get md ''name'') (py_get md ''namespace'')]
            (create_project_request e m defn)"
    by (rule provisioning_path [OF assms(1-3) state_present [OF assms(5)] assms(6) sig])
  show ?thesis
    using assms(9,10)
    by (simp add: path after_def create_project_request_resolved [OF assms(4,8)])
qed

theorem provisioning_does_not_wait_witness:
  "map_of (params (okd_module ''present'' False)) ''wait'' = Some (PyBool True)
   \<and> calls (perform_action (cluster (Inl not_found)) (okd_module ''present'' False)
        projects project_defn) =
       [Get projects (PyStr ''demo'') PyNone,
        FindResource ''ProjectRequest'' (PyStr ''project.openshift.io/v1''),
        Create (Resource ''ProjectRequest'' (PyStr ''project.openshift.io/v1''))
          (as_project_request project_defn)]
   \<and> (case outcome (perform_action (cluster (Inl not_found)) (okd_module ''present'' False)
          projects project_defn) of
         Inr result \<Rightarrow> map_of result ''duration'' = None
       | Inl f \<Rightarrow> False)"
  using provisioning_does_not_wait
    [of project_defn "[(''name'', PyStr ''demo'')]" "''Project''"
        "PyStr ''project.openshift.io/v1''" "okd_module ''present'' False"
        "cluster (Inl not_found)" projects not_found
        "\<lparr>body = ''not found'', status = 404, reason = ''Not Found''\<rparr>"
        "Resource ''ProjectRequest'' (PyStr ''project.openshift.io/v1'')" created_object]
  by (auto simp: scenario_defs py_get_def split: sum.splits)

subsection \<open>A missing collection is fatal at construction\<close>

text \<open>
  Claim C9. If the community.kubernetes collection could not be imported, constructing
  the module ends the run in \<open>fail_json\<close> with \<open>msg\<close>, \<open>exception\<close> and \<open>error\<close>, before
  the inherited constructor, \<open>execute_module\<close> or any other call is made.
\<close>

theorem missing_collection_is_fatal:
  assumes "\<not> HAS_KUBERNETES_COLLECTION imp"
  shows "main imp base_init execute_module =
           ([], Inl (FailJson
              [(''msg'', PyStr ''The community.kubernetes collection must be installed''),
               (''exception'', PyStr (K8S_COLLECTION_ERROR imp)),
               (''error'', PyStr (k8s_collection_import_exception imp))]))"
  using assms by (simp add: main_def init_def)

theorem missing_collection_is_fatal_witness:
  "\<not> HAS_KUBERNETES_COLLECTION (ImportFailed ''No module named ansible_collections'' ''Traceback'')
   \<and> main (ImportFailed ''No module named ansible_collections'' ''Traceback'')
        (Inr (okd_module ''present'' False))
        (\<lambda>m. Inr [(''changed'', PyBool False)]) =
       ([], Inl (FailJson
          [(''msg'', PyStr ''The community.kubernetes collection must be installed''),
           (''exception'', PyStr ''Traceback''),
           (''error'', PyStr ''No module named ansible_collections'')]))"
  using missing_collection_is_fatal
    [of "ImportFailed ''No module named ansible_collections'' ''Traceback''"
        "Inr (okd_module ''present'' False)" "\<lambda>m. Inr [(''changed'', PyBool False)]"]
  by simp

subsection \<open>Check mode\<close>

text \<open>
  Claim C10. In check mode \<open>create_project_request\<close> resolves the request kind and makes
  no create call, yet returns \<open>changed=true\<close> with an empty \<open>result\<close>; outside check mode,
  when the create succeeds, \<open>result\<close> is the created object converted with \<open>to_dict\<close>.
\<close>

theorem check_mode_skips_create:
  assumes "map_of defn ''apiVersion'' = Some api_version"
      and "find_resource e ''ProjectRequest'' api_version = Inr request_resource"
  shows "(check_mode m \<longrightarrow>
            calls (create_project_request e m defn)
              = [FindResource ''ProjectRequest'' api_version]
            \<and> outcome (create_project_request e m defn)
              = Inr [(''changed'', PyBool True), (''result'', PyDict []),
                     (''method'', PyStr ''create'')])
         \<and> (\<not> check_mode m
              \<and> resource_create e request_resource (as_project_request defn) = Inr k8s_obj \<longrightarrow>
            calls (create_project_request e m defn)
              = [FindResource ''ProjectRequest'' api_version,
                 Create request_resource (as_project_request defn)]
            \<and> outcome (create_project_request e m defn)
              = Inr [(''changed'', PyBool True), (''result'', PyDict (to_dict k8s_obj)),
                     (''method'', PyStr ''create'')])"
  by (simp add: create_project_request_resolved [OF assms])

theorem check_mode_skips_create_witness:
  "outcome (create_project_request (cluster (Inl not_found)) (okd_module ''present'' True)
      project_defn)
     = Inr [(''changed'', PyBool True), (''result'', PyDict []), (''method'', PyStr ''create'')]
   \<and> calls (create_project_request (cluster (Inl not_found)) (okd_module ''present'' True)
      project_defn)
     = [FindResource ''ProjectRequest'' (PyStr ''project.openshift.io/v1'')]
   \<and> outcome (create_project_request (cluster (Inl not_found)) (okd_module ''present'' False)
      project_defn)
     = Inr [(''changed'', PyBool True), (''result'', PyDict (to_dict created_object)),
            (''method'', PyStr ''create'')]"
  using check_mode_skips_create
    [of project_defn "PyStr ''project.openshift.io/v1''" "cluster (Inl not_found)"
        "Resource ''ProjectRequest'' (PyStr ''project.openshift.io/v1'')"
        "okd_module ''present'' True" created_object]
    check_mode_skips_create
    [of project_defn "PyStr ''project.openshift.io/v1''" "cluster (Inl not_found)"
        "Resource ''ProjectRequest'' (PyStr ''project.openshift.io/v1'')"
        "okd_module ''present'' False" created_object]
  by (simp add: scenario_defs)

end
